theory Spec2Isabelle
  imports Main "HOL-Library.Word"
begin

section \<open>Errors, file information and the calls made to the operating system\<close>

text \<open>
  Go's \<^verbatim>\<open>error\<close> values. \<open>Errorf\<close> is an error built by the library itself with
  \<^verbatim>\<open>fmt.Errorf\<close> or \<^verbatim>\<open>errors.New\<close> (the text is the formatted message); \<open>OSError\<close> is
  any error handed back by the operating system, the Go runtime or an external tool.
\<close>

datatype error = Errorf string | OSError string

text \<open>The part of \<^verbatim>\<open>os.FileInfo\<close> the library reads.\<close>

record fileinfo =
  fi_isdir :: bool
  fi_mode :: nat
  fi_modtime :: nat

datatype DevNode = DevNodeRandom | DevNodeURandom

datatype oflag = O_WRONLY | O_CREATE | O_TRUNC

text \<open>
  Every call that leaves the library: the Go standard library calls of the sources, and the
  mount and device-node helpers of package \<^verbatim>\<open>disk\<close> whose files are not part of the
  sources at hand (\<^verbatim>\<open>BindMount\<close>, \<^verbatim>\<open>Unmount\<close>, \<^verbatim>\<open>CreateDeviceNode\<close>), which are taken
  as calls answered by the environment. Open files are named by the path they were opened at.
  \<open>EvRun dir path args\<close> is \<^verbatim>\<open>exec.Cmd.Run\<close> of the program at \<open>path\<close> with
  arguments \<open>args\<close> and \<^verbatim>\<open>Cmd.Dir = dir\<close> (the empty string: the caller's directory).
\<close>

datatype event =
    EvGetwd
  | EvStat string
  | EvOpen string
  | EvOpenFile string "oflag list" nat
  | EvReadAll string
  | EvClose string
  | EvRemove string
  | EvFtruncate string int
  | EvCopy string string
  | EvChtimes string nat nat
  | EvMkdirAll string nat
  | EvSymlink string string
  | EvReadDir string
  | EvLookPath string
  | EvRun string string "string list"
  | EvBindMount string string
  | EvUnmount string
  | EvCreateDeviceNode string DevNode

text \<open>
  What a call returns, as Go's multiple results: the error (\<open>None\<close> is \<^verbatim>\<open>nil\<close>) and the
  value read when there is no error.
\<close>

record reply =
  r_err :: "error option"
  r_str :: string
  r_info :: fileinfo
  r_names :: "string list"
  r_written :: int

text \<open>
  The world the library runs in: the calls made so far, an oracle that answers each call
  from the calls before it (so every behaviour of the environment is some oracle), and the
  logical size of the files the calls have created, truncated or removed.
\<close>

record world =
  trace :: "event list"
  answers :: "event list \<Rightarrow> event \<Rightarrow> reply"
  fsize :: "string \<Rightarrow> int option"

definition sys :: "world \<Rightarrow> event \<Rightarrow> reply \<times> world" where
  "sys w ev = (answers w (trace w) ev, w\<lparr>trace := trace w @ [ev]\<rparr>)"

definition sys_err :: "world \<Rightarrow> event \<Rightarrow> error option \<times> world" where
  "sys_err w ev = (case sys w ev of (r, w') \<Rightarrow> (r_err r, w'))"

definition sys_str :: "world \<Rightarrow> event \<Rightarrow> (error + string) \<times> world" where
  "sys_str w ev =
     (case sys w ev of (r, w') \<Rightarrow>
        (case r_err r of Some err \<Rightarrow> (Inl err, w') | None \<Rightarrow> (Inr (r_str r), w')))"

text \<open>The events a run added to the trace.\<close>

definition new_events :: "world \<Rightarrow> world \<Rightarrow> event list" where
  "new_events w w' = drop (length (trace w)) (trace w')"

subsection \<open>Package os, io, syscall and os/exec\<close>

definition os_Getwd :: "world \<Rightarrow> (error + string) \<times> world" where
  "os_Getwd w = sys_str w EvGetwd"

definition os_Stat :: "world \<Rightarrow> string \<Rightarrow> (error + fileinfo) \<times> world" where
  "os_Stat w name =
     (case sys w (EvStat name) of (r, w') \<Rightarrow>
        (case r_err r of Some err \<Rightarrow> (Inl err, w') | None \<Rightarrow> (Inr (r_info r), w')))"

definition os_Open :: "world \<Rightarrow> string \<Rightarrow> error option \<times> world" where
  "os_Open w name = sys_err w (EvOpen name)"

text \<open>
  \<^verbatim>\<open>os.OpenFile\<close>: when it succeeds with \<^verbatim>\<open>O_TRUNC\<close> the file is empty; without it a file
  that was not there is empty and one that was keeps its size.
\<close>

definition os_OpenFile :: "world \<Rightarrow> string \<Rightarrow> oflag list \<Rightarrow> nat \<Rightarrow> error option \<times> world" where
  "os_OpenFile w name flags perm =
     (case sys w (EvOpenFile name flags perm) of (r, w') \<Rightarrow>
        (case r_err r of
           Some err \<Rightarrow> (Some err, w')
         | None \<Rightarrow>
             (None,
              if O_TRUNC \<in> set flags \<or> fsize w' name = None
              then w'\<lparr>fsize := (fsize w')(name \<mapsto> 0)\<rparr> else w')))"

definition ioutil_ReadAll :: "world \<Rightarrow> string \<Rightarrow> (error + string) \<times> world" where
  "ioutil_ReadAll w name = sys_str w (EvReadAll name)"

definition file_Close :: "world \<Rightarrow> string \<Rightarrow> error option \<times> world" where
  "file_Close w name = sys_err w (EvClose name)"

definition os_Remove :: "world \<Rightarrow> string \<Rightarrow> error option \<times> world" where
  "os_Remove w name =
     (case sys w (EvRemove name) of (r, w') \<Rightarrow>
        (case r_err r of
           Some err \<Rightarrow> (Some err, w')
         | None \<Rightarrow> (None, w'\<lparr>fsize := (fsize w')(name := None)\<rparr>)))"

text \<open>
  \<^verbatim>\<open>syscall.Ftruncate\<close>: a negative length is refused (EINVAL); a call that succeeds sets
  the logical size of the file to the length.
\<close>

definition syscall_Ftruncate :: "world \<Rightarrow> string \<Rightarrow> int \<Rightarrow> error option \<times> world" where
  "syscall_Ftruncate w name len =
     (case sys w (EvFtruncate name len) of (r, w') \<Rightarrow>
        (if len < 0 then (Some (OSError ''invalid argument''), w')
         else (case r_err r of
                 Some err \<Rightarrow> (Some err, w')
               | None \<Rightarrow> (None, w'\<lparr>fsize := (fsize w')(name \<mapsto> len)\<rparr>))))"

text \<open>
  \<^verbatim>\<open>io.Copy(dst, src)\<close> into a file just opened with \<^verbatim>\<open>O_TRUNC\<close>: the bytes written are
  the size of the destination, also when the copy stops on an error.
\<close>

definition io_Copy :: "world \<Rightarrow> string \<Rightarrow> string \<Rightarrow> error option \<times> world" where
  "io_Copy w dst src =
     (case sys w (EvCopy dst src) of (r, w') \<Rightarrow>
        (r_err r, w'\<lparr>fsize := (fsize w')(dst \<mapsto> r_written r)\<rparr>))"

definition os_Chtimes :: "world \<Rightarrow> string \<Rightarrow> nat \<Rightarrow> nat \<Rightarrow> error option \<times> world" where
  "os_Chtimes w name atime mtime = sys_err w (EvChtimes name atime mtime)"

definition os_MkdirAll :: "world \<Rightarrow> string \<Rightarrow> nat \<Rightarrow> error option \<times> world" where
  "os_MkdirAll w p perm = sys_err w (EvMkdirAll p perm)"

definition os_Symlink :: "world \<Rightarrow> string \<Rightarrow> string \<Rightarrow> error option \<times> world" where
  "os_Symlink w oldname newname = sys_err w (EvSymlink oldname newname)"

definition ioutil_ReadDir :: "world \<Rightarrow> string \<Rightarrow> (error + string list) \<times> world" where
  "ioutil_ReadDir w dirname =
     (case sys w (EvReadDir dirname) of (r, w') \<Rightarrow>
        (case r_err r of Some err \<Rightarrow> (Inl err, w') | None \<Rightarrow> (Inr (r_names r), w')))"

definition exec_LookPath :: "world \<Rightarrow> string \<Rightarrow> (error + string) \<times> world" where
  "exec_LookPath w file = sys_str w (EvLookPath file)"

definition cmd_Run :: "world \<Rightarrow> string \<Rightarrow> string \<Rightarrow> string list \<Rightarrow> error option \<times> world" where
  "cmd_Run w dir path args = sys_err w (EvRun dir path args)"

subsection \<open>The mount manager and the device nodes of package disk\<close>

definition BindMount :: "world \<Rightarrow> string \<Rightarrow> string \<Rightarrow> error option \<times> world" where
  "BindMount w source target = sys_err w (EvBindMount source target)"

definition Unmount :: "world \<Rightarrow> string \<Rightarrow> error option \<times> world" where
  "Unmount w target = sys_err w (EvUnmount target)"

definition CreateDeviceNode :: "world \<Rightarrow> string \<Rightarrow> DevNode \<Rightarrow> error option \<times> world" where
  "CreateDeviceNode w rootdir node = sys_err w (EvCreateDeviceNode rootdir node)"

section \<open>Package path/filepath on Unix\<close>

text \<open>
  The lexical path functions of Go's standard library, for \<^verbatim>\<open>/\<close>-separated paths without a
  volume name. \<open>filepath_Clean\<close> drops empty and \<^verbatim>\<open>.\<close> elements, lets \<^verbatim>\<open>..\<close> remove the
  element before it, drops \<^verbatim>\<open>..\<close> at the root and keeps it at the front of a relative
  path; the empty result is \<^verbatim>\<open>.\<close>.
\<close>

fun split_sep :: "char \<Rightarrow> string \<Rightarrow> string list" where
  "split_sep c [] = [[]]"
| "split_sep c (x # xs) =
     (if x = c then [] # split_sep c xs
      else (case split_sep c xs of [] \<Rightarrow> [[x]] | y # ys \<Rightarrow> (x # y) # ys))"

fun join_sep :: "string list \<Rightarrow> string" where
  "join_sep [] = []"
| "join_sep [x] = x"
| "join_sep (x # y # ys) = x @ ''/'' @ join_sep (y # ys)"

fun clean_elems :: "bool \<Rightarrow> string list \<Rightarrow> string list \<Rightarrow> string list" where
  "clean_elems rooted out [] = out"
| "clean_elems rooted out (c # cs) =
     (if c = [] \<or> c = ''.'' then clean_elems rooted out cs
      else if c = ''..'' then
        (if out \<noteq> [] \<and> last out \<noteq> ''..'' then clean_elems rooted (butlast out) cs
         else if rooted then clean_elems rooted out cs
         else clean_elems rooted (out @ [''..'']) cs)
      else clean_elems rooted (out @ [c]) cs)"

definition filepath_IsAbs :: "string \<Rightarrow> bool" where
  "filepath_IsAbs p = (case p of [] \<Rightarrow> False | c # _ \<Rightarrow> c = CHR ''/'')"

definition filepath_Clean :: "string \<Rightarrow> string" where
  "filepath_Clean p =
     (if p = [] then ''.''
      else (let out = clean_elems (filepath_IsAbs p) [] (split_sep CHR ''/'' p)
            in if filepath_IsAbs p then ''/'' @ join_sep out
               else if out = [] then ''.'' else join_sep out))"

definition filepath_Join :: "string list \<Rightarrow> string" where
  "filepath_Join elems =
     (case dropWhile (\<lambda>e. e = []) elems of
        [] \<Rightarrow> []
      | e # es \<Rightarrow> filepath_Clean (join_sep (e # es)))"

definition filepath_Dir :: "string \<Rightarrow> string" where
  "filepath_Dir p = filepath_Clean (rev (dropWhile (\<lambda>c. c \<noteq> CHR ''/'') (rev p)))"

definition filepath_Abs :: "world \<Rightarrow> string \<Rightarrow> (error + string) \<times> world" where
  "filepath_Abs w p =
     (if filepath_IsAbs p then (Inr (filepath_Clean p), w)
      else (case os_Getwd w of
              (Inl err, w') \<Rightarrow> (Inl err, w')
            | (Inr wd, w') \<Rightarrow> (Inr (filepath_Join [wd, p]), w')))"

section \<open>Package commands\<close>

text \<open>
  \<^verbatim>\<open>execHelper\<close> searches the path when the command has no \<^verbatim>\<open>/\<close> and builds the
  \<^verbatim>\<open>exec.Cmd\<close>; the model returns the path of the program the command will run.
\<close>

definition execHelper :: "world \<Rightarrow> string \<Rightarrow> (error + string) \<times> world" where
  "execHelper w command =
     (if CHR ''/'' \<notin> set command then exec_LookPath w command else (Inr command, w))"

definition ExecStdoutArgs :: "world \<Rightarrow> string \<Rightarrow> string list \<Rightarrow> error option \<times> world" where
  "ExecStdoutArgs w command args =
     (case execHelper w command of
        (Inl err, w1) \<Rightarrow> (Some err, w1)
      | (Inr c, w1) \<Rightarrow> cmd_Run w1 [] c args)"

definition ExecStdoutArgsDir ::
  "world \<Rightarrow> string \<Rightarrow> string \<Rightarrow> string list \<Rightarrow> error option \<times> world" where
  "ExecStdoutArgsDir w dir command args =
     (case execHelper w command of
        (Inl err, w1) \<Rightarrow> (Some err, w1)
      | (Inr c, w1) \<Rightarrow> cmd_Run w1 dir c args)"

definition ChrootExec :: "world \<Rightarrow> string \<Rightarrow> string \<Rightarrow> error option \<times> world" where
  "ChrootExec w dir command = ExecStdoutArgs w ''chroot'' [dir, ''/bin/sh'', ''-c'', command]"

text \<open>\<^verbatim>\<open>%d\<close> of \<^verbatim>\<open>fmt.Sprintf\<close>.\<close>

fun digits :: "nat \<Rightarrow> string" where
  "digits n =
     (if n < 10 then [char_of (48 + n)] else digits (n div 10) @ [char_of (48 + n mod 10)])"

definition fmt_d :: "int \<Rightarrow> string" where
  "fmt_d i = (if i < 0 then ''-'' @ digits (nat (- i)) else digits (nat i))"

definition dq :: string where
  "dq = [CHR 0x22]"

definition AddGroup :: "world \<Rightarrow> string \<Rightarrow> string \<Rightarrow> int \<Rightarrow> error option \<times> world" where
  "AddGroup w rootdir groupName groupID =
     ChrootExec w rootdir
       (''/usr/sbin/groupadd -g '' @ fmt_d groupID @ '' '' @ dq @ groupName @ dq)"

definition AddSystemUser ::
  "world \<Rightarrow> string \<Rightarrow> string \<Rightarrow> string \<Rightarrow> string \<Rightarrow> string \<Rightarrow> int \<Rightarrow> int
     \<Rightarrow> error option \<times> world" where
  "AddSystemUser w rootdir userName gecos home shell uid gid =
     ChrootExec w rootdir
       (''/usr/sbin/useradd -m -d '' @ dq @ home @ dq @ '' -r -s '' @ dq @ shell @ dq
          @ '' -u '' @ fmt_d uid @ '' -g '' @ fmt_d gid @ '' '' @ dq @ userName @ dq
          @ '' -c '' @ dq @ gecos @ dq)"

section \<open>Package disk\<close>

type_synonym CompressionType = string

definition CompressionGzip :: CompressionType where
  "CompressionGzip = ''gzip''"

definition CompressionXZ :: CompressionType where
  "CompressionXZ = ''xz''"

text \<open>
  \<^verbatim>\<open>CopyFile\<close>. A failing \<^verbatim>\<open>os.Stat\<close> returns \<^verbatim>\<open>nil\<close>. The deferred \<^verbatim>\<open>src.Close()\<close>
  runs on every return after the source was opened.
\<close>

definition CopyFile :: "world \<Rightarrow> string \<Rightarrow> string \<Rightarrow> error option \<times> world" where
  "CopyFile w source dest =
     (case os_Stat w source of
        (Inl err, w1) \<Rightarrow> (None, w1)
      | (Inr st, w1) \<Rightarrow>
     (case os_Open w1 source of
        (Some err, w2) \<Rightarrow> (Some err, w2)
      | (None, w2) \<Rightarrow>
     (case os_OpenFile w2 dest [O_TRUNC, O_CREATE, O_WRONLY] (fi_mode st) of
        (Some err, w3) \<Rightarrow> (Some err, snd (file_Close w3 source))
      | (None, w3) \<Rightarrow>
     (case io_Copy w3 dest source of
        (Some err, w4) \<Rightarrow> (Some err, snd (file_Close (snd (file_Close w4 dest)) source))
      | (None, w4) \<Rightarrow>
          (let w5 = snd (file_Close w4 dest);
               w6 = snd (os_Chtimes w5 dest (fi_modtime st) (fi_modtime st))
           in (None, snd (file_Close w6 source)))))))"

text \<open>
  \<^verbatim>\<open>CreateSparseFile\<close>. Go's \<^verbatim>\<open>int\<close> is the 64-bit integer of the amd64 targets of the
  library: the product is taken in \<^verbatim>\<open>int\<close> and wraps, and \<^verbatim>\<open>int64(...)\<close> reads it signed.
\<close>

definition CreateSparseFile :: "world \<Rightarrow> string \<Rightarrow> 64 word \<Rightarrow> error option \<times> world" where
  "CreateSparseFile w filename nMegabytes =
     (case os_OpenFile w filename [O_CREATE, O_TRUNC, O_WRONLY] 420 of
        (Some err, w1) \<Rightarrow> (Some err, w1)
      | (None, w1) \<Rightarrow>
          (let sz = sint (nMegabytes * 1000 * 1000) in
           case syscall_Ftruncate w1 filename sz of
             (r, w2) \<Rightarrow> (r, snd (file_Close w2 filename))))"

definition GetSquashfsArgs :: "CompressionType \<Rightarrow> error + string list" where
  "GetSquashfsArgs compressionType =
     (if compressionType = CompressionGzip then Inr [''-comp'', ''gzip'']
      else if compressionType = CompressionXZ then Inr [''-comp'', ''xz'']
      else Inl (Errorf (''Unknown compression type: '' @ compressionType)))"

definition CreateSquashfs ::
  "world \<Rightarrow> string \<Rightarrow> string \<Rightarrow> CompressionType \<Rightarrow> error option \<times> world" where
  "CreateSquashfs w path outputFile compressionType =
     (case filepath_Abs w path of
        (Inl err, w1) \<Rightarrow> (Some err, w1)
      | (Inr fp, w1) \<Rightarrow>
     (case os_Stat w1 path of
        (Inl err, w2) \<Rightarrow> (Some err, w2)
      | (Inr st, w2) \<Rightarrow>
     (case GetSquashfsArgs compressionType of
        Inl err \<Rightarrow> (Some err, w2)
      | Inr execArgs \<Rightarrow>
          ExecStdoutArgsDir w2 (filepath_Dir fp) ''mksquashfs''
            ([path, outputFile] @ (if fi_isdir st then [''-keep-as-directory''] else [])
               @ execArgs))))"

subsection \<open>The filesystem registry\<close>

definition formatExt4 :: "world \<Rightarrow> string \<Rightarrow> error option \<times> world" where
  "formatExt4 w filename =
     (case ExecStdoutArgs w ''mkfs'' [''-t'', ''ext4'', ''-F'', filename] of
        (Some err, w1) \<Rightarrow> (Some err, w1)
      | (None, w1) \<Rightarrow> ExecStdoutArgs w1 ''tune2fs'' [''-c0'', ''-i0'', filename])"

definition checkExt4 :: "world \<Rightarrow> string \<Rightarrow> error option \<times> world" where
  "checkExt4 w filename =
     (case ExecStdoutArgs w ''e2fsck'' [''-y'', filename] of
        (Some err, w1) \<Rightarrow> (Some err, w1)
      | (None, w1) \<Rightarrow> ExecStdoutArgs w1 ''e2fsck'' [''-y'', ''-f'', filename])"

text \<open>The two maps as \<^verbatim>\<open>init\<close> leaves them; nothing else writes to them.\<close>

definition filesystemCommands ::
  "string \<Rightarrow> (world \<Rightarrow> string \<Rightarrow> error option \<times> world) option" where
  "filesystemCommands = Map.empty(''ext4'' \<mapsto> formatExt4)"

definition checkCommands ::
  "string \<Rightarrow> (world \<Rightarrow> string \<Rightarrow> error option \<times> world) option" where
  "checkCommands = Map.empty(''ext4'' \<mapsto> checkExt4)"

definition sq :: string where
  "sq = [CHR 0x27]"

definition FormatAs :: "world \<Rightarrow> string \<Rightarrow> string \<Rightarrow> error option \<times> world" where
  "FormatAs w filename filesystem =
     (case filesystemCommands filesystem of
        None \<Rightarrow>
          (Some (Errorf (''Cannot format with unknown filesystem '' @ sq @ filesystem @ sq)), w)
      | Some command \<Rightarrow> command w filename)"

definition CheckFS :: "world \<Rightarrow> string \<Rightarrow> string \<Rightarrow> error option \<times> world" where
  "CheckFS w filename filesystem =
     (case checkCommands filesystem of
        None \<Rightarrow>
          (Some (Errorf (''Cannot check with unknown filesystem '' @ sq @ filesystem @ sq)), w)
      | Some command \<Rightarrow> command w filename)"

section \<open>Package pkg: the eopkg manager\<close>

definition EopkgCacheDirectory :: string where
  "EopkgCacheDirectory = ''/var/lib/evobuild/packages''"

record EopkgManager =
  root :: string
  cacheTarget :: string
  targetMode :: bool
  dbusActive :: bool
  cacheSource :: string

definition NewEopkgManager :: EopkgManager where
  "NewEopkgManager =
     \<lparr>root = [], cacheTarget = [], targetMode = False, dbusActive = False,
      cacheSource = EopkgCacheDirectory\<rparr>"

definition SetCacheDirectory :: "EopkgManager \<Rightarrow> string \<Rightarrow> EopkgManager" where
  "SetCacheDirectory e source = e\<lparr>cacheSource := source\<rparr>"

definition Init :: "world \<Rightarrow> EopkgManager \<Rightarrow> error option \<times> world \<times> EopkgManager" where
  "Init w e =
     (case exec_LookPath w ''eopkg'' of
        (Inl err, w1) \<Rightarrow> (Some err, w1, e)
      | (Inr p, w1) \<Rightarrow> (None, w1, e))"

definition reqDirs :: "string list" where
  "reqDirs = [''run/lock'', ''var'', ''var/cache/eopkg/packages'']"

fun mkdirs :: "world \<Rightarrow> string \<Rightarrow> string list \<Rightarrow> error option \<times> world" where
  "mkdirs w rootdir [] = (None, w)"
| "mkdirs w rootdir (dir # dirs) =
     (case os_MkdirAll w (filepath_Join [rootdir, dir]) 493 of
        (Some err, w1) \<Rightarrow> (Some err, w1)
      | (None, w1) \<Rightarrow> mkdirs w1 rootdir dirs)"

text \<open>\<^verbatim>\<open>InitRoot\<close>: the two assignments come first, before any call that can fail.\<close>

definition InitRoot ::
  "world \<Rightarrow> EopkgManager \<Rightarrow> string \<Rightarrow> error option \<times> world \<times> EopkgManager" where
  "InitRoot w e rootdir =
     (let e1 = e\<lparr>root := rootdir, targetMode := True\<rparr> in
      case mkdirs w rootdir reqDirs of
        (Some err, w1) \<Rightarrow> (Some err, w1, e1)
      | (None, w1) \<Rightarrow>
     (case os_MkdirAll w1 (cacheSource e1) 493 of
        (Some err, w2) \<Rightarrow> (Some err, w2, e1)
      | (None, w2) \<Rightarrow>
     (case os_Symlink w2 ''../run/lock'' (filepath_Join [rootdir, ''var'', ''lock'']) of
        (Some err, w3) \<Rightarrow> (Some err, w3, e1)
      | (None, w3) \<Rightarrow>
     (case os_Symlink w3 ''../run'' (filepath_Join [rootdir, ''var'', ''run'']) of
        (Some err, w4) \<Rightarrow> (Some err, w4, e1)
      | (None, w4) \<Rightarrow>
          (let e2 = e1\<lparr>cacheTarget :=
                      filepath_Join [rootdir, ''var'', ''cache'', ''eopkg'', ''packages'']\<rparr>
           in case BindMount w4 (cacheSource e2) (cacheTarget e2) of
                (r, w5) \<Rightarrow> (r, w5, e2))))))"

fun copyFiles :: "world \<Rightarrow> string \<Rightarrow> string \<Rightarrow> string list \<Rightarrow> error option \<times> world" where
  "copyFiles w baseDir tgtDir [] = (None, w)"
| "copyFiles w baseDir tgtDir (name # names) =
     (case CopyFile w (filepath_Join [baseDir, name]) (filepath_Join [tgtDir, name]) of
        (Some err, w1) \<Rightarrow> (Some err, w1)
      | (None, w1) \<Rightarrow> copyFiles w1 baseDir tgtDir names)"

definition copyBaselayout :: "world \<Rightarrow> EopkgManager \<Rightarrow> error option \<times> world" where
  "copyBaselayout w e =
     (let baseDir = filepath_Join [root e, ''usr'', ''share'', ''baselayout''];
          tgtDir = filepath_Join [root e, ''etc'']
      in case ioutil_ReadDir w baseDir of
           (Inl err, w1) \<Rightarrow> (Some err, w1)
         | (Inr files, w1) \<Rightarrow> copyFiles w1 baseDir tgtDir files)"

definition startDBUS ::
  "world \<Rightarrow> EopkgManager \<Rightarrow> error option \<times> world \<times> EopkgManager" where
  "startDBUS w e =
     (if dbusActive e then (None, w, e)
      else (case ChrootExec w (root e) ''dbus-uuidgen --ensure'' of
              (Some err, w1) \<Rightarrow> (Some err, w1, e)
            | (None, w1) \<Rightarrow>
           (case ChrootExec w1 (root e) ''dbus-daemon --system'' of
              (Some err, w2) \<Rightarrow> (Some err, w2, e)
            | (None, w2) \<Rightarrow> (None, w2, e\<lparr>dbusActive := True\<rparr>))))"

text \<open>
  \<^verbatim>\<open>killDBUS\<close>. The deferred function (close the pid file, remove it, clear the flag) is
  registered only after \<^verbatim>\<open>os.Open\<close> has succeeded; it runs on each return after that, once
  the returned value has been computed.
\<close>

definition killDBUS_deferred ::
  "world \<Rightarrow> EopkgManager \<Rightarrow> string \<Rightarrow> world \<times> EopkgManager" where
  "killDBUS_deferred w e fpath =
     (let w1 = snd (file_Close w fpath);
          w2 = snd (os_Remove w1 fpath)
      in (w2, e\<lparr>dbusActive := False\<rparr>))"

definition killDBUS ::
  "world \<Rightarrow> EopkgManager \<Rightarrow> error option \<times> world \<times> EopkgManager" where
  "killDBUS w e =
     (if \<not> dbusActive e then (None, w, e)
      else (let fpath = filepath_Join [root e, ''var/run/dbus/pid''] in
            case os_Open w fpath of
              (Some err, w1) \<Rightarrow> (Some err, w1, e)
            | (None, w1) \<Rightarrow>
           (case ioutil_ReadAll w1 fpath of
              (Inl err, w2) \<Rightarrow>
                (case killDBUS_deferred w2 e fpath of (w3, e') \<Rightarrow> (Some err, w3, e'))
            | (Inr b, w2) \<Rightarrow>
                (let pid = hd (split_sep (CHR 0x0A) b) in
                 case ExecStdoutArgs w2 ''kill'' [''-9'', pid] of
                   (r, w3) \<Rightarrow>
                     (case killDBUS_deferred w3 e fpath of (w4, e') \<Rightarrow> (r, w4, e'))))))"

definition configureDbus :: "world \<Rightarrow> EopkgManager \<Rightarrow> error option \<times> world" where
  "configureDbus w e =
     (case AddGroup w (root e) ''messagebus'' 18 of
        (Some err, w1) \<Rightarrow> (Some err, w1)
      | (None, w1) \<Rightarrow>
          AddSystemUser w1 (root e) ''messagebus'' ''D-Bus Message Daemon'' ''/var/run/dbus''
            ''/bin/false'' 18 18)"

definition FinalizeRoot ::
  "world \<Rightarrow> EopkgManager \<Rightarrow> error option \<times> world \<times> EopkgManager" where
  "FinalizeRoot w e =
     (case Unmount w (cacheTarget e) of
        (Some err, w1) \<Rightarrow> (Some err, w1, e)
      | (None, w1) \<Rightarrow>
     (case copyBaselayout w1 e of
        (Some err, w2) \<Rightarrow> (Some err, w2, e)
      | (None, w2) \<Rightarrow>
     (case ChrootExec w2 (root e) ''ldconfig'' of
        (Some err, w3) \<Rightarrow> (Some err, w3, e)
      | (None, w3) \<Rightarrow>
     (case configureDbus w3 e of
        (Some err, w4) \<Rightarrow> (Some err, w4, e)
      | (None, w4) \<Rightarrow>
     (case CreateDeviceNode w4 (root e) DevNodeRandom of
        (Some err, w5) \<Rightarrow> (Some err, w5, e)
      | (None, w5) \<Rightarrow>
     (case CreateDeviceNode w5 (root e) DevNodeURandom of
        (Some err, w6) \<Rightarrow> (Some err, w6, e)
      | (None, w6) \<Rightarrow>
     (case startDBUS w6 e of
        (Some err, w7, e1) \<Rightarrow> (Some err, w7, e1)
      | (None, w7, e1) \<Rightarrow>
     (case ChrootExec w7 (root e1) ''eopkg configure-pending'' of
        (Some err, w8) \<Rightarrow>
          (case killDBUS w8 e1 of (ignored, w9, e2) \<Rightarrow> (Some err, w9, e2))
      | (None, w8) \<Rightarrow>
     (case killDBUS w8 e1 of
        (Some err, w9, e2) \<Rightarrow> (Some err, w9, e2)
      | (None, w9, e2) \<Rightarrow>
     (case ChrootExec w9 (root e2) ''eopkg delete-cache'' of
        (r, w10) \<Rightarrow> (r, w10, e2)))))))))))"

definition Cleanup :: "world \<Rightarrow> EopkgManager \<Rightarrow> error option \<times> world \<times> EopkgManager" where
  "Cleanup w e = killDBUS w e"

definition eopkgExecRoot ::
  "world \<Rightarrow> EopkgManager \<Rightarrow> string list \<Rightarrow> error option \<times> world" where
  "eopkgExecRoot w e args =
     (if \<not> targetMode e then ExecStdoutArgs w ''eopkg'' args
      else ExecStdoutArgs w ''eopkg'' (args @ [''-D'', root e]))"

definition AddRepo ::
  "world \<Rightarrow> EopkgManager \<Rightarrow> string \<Rightarrow> string \<Rightarrow> error option \<times> world" where
  "AddRepo w e identifier uri = eopkgExecRoot w e [''add-repo'', identifier, uri]"

definition InstallGroups ::
  "world \<Rightarrow> EopkgManager \<Rightarrow> bool \<Rightarrow> string list \<Rightarrow> error option \<times> world" where
  "InstallGroups w e ignoreSafety groups =
     (let componentNames = concat (map (\<lambda>comp. [''-c'', comp]) groups);
          cmd = [''install'', ''-y''] @ (if targetMode e then [''--ignore-comar''] else [])
                  @ componentNames @ (if ignoreSafety then [''--ignore-safety''] else [])
      in eopkgExecRoot w e cmd)"

definition InstallPackages ::
  "world \<Rightarrow> EopkgManager \<Rightarrow> bool \<Rightarrow> string list \<Rightarrow> error option \<times> world" where
  "InstallPackages w e ignoreSafety packages =
     (let cmd = [''install'', ''-y''] @ (if targetMode e then [''--ignore-comar''] else [])
                  @ packages @ (if ignoreSafety then [''--ignore-safety''] else [])
      in eopkgExecRoot w e cmd)"

section \<open>Example worlds\<close>

text \<open>
  A world in which every call succeeds: programs are found under \<^verbatim>\<open>/usr/bin\<close>, the
  working directory is \<^verbatim>\<open>/build\<close>, every path is a directory and the pid file holds
  \<^verbatim>\<open>4321\<close>. \<open>world_failing bad\<close> is the same world with the calls that \<open>bad\<close> selects
  failing.
\<close>

definition ok_reply :: reply where
  "ok_reply =
     \<lparr>r_err = None, r_str = [],
      r_info = \<lparr>fi_isdir = True, fi_mode = 493, fi_modtime = 0\<rparr>,
      r_names = [], r_written = 0\<rparr>"

definition answers_ok :: "event list \<Rightarrow> event \<Rightarrow> reply" where
  "answers_ok h ev =
     (case ev of
        EvLookPath f \<Rightarrow> ok_reply\<lparr>r_str := ''/usr/bin/'' @ f\<rparr>
      | EvGetwd \<Rightarrow> ok_reply\<lparr>r_str := ''/build''\<rparr>
      | EvReadAll p \<Rightarrow> ok_reply\<lparr>r_str := ''4321'' @ [CHR 0x0A]\<rparr>
      | _ \<Rightarrow> ok_reply)"

definition world_ok :: world where
  "world_ok = \<lparr>trace = [], answers = answers_ok, fsize = Map.empty\<rparr>"

definition world_failing :: "(event \<Rightarrow> bool) \<Rightarrow> world" where
  "world_failing bad =
     \<lparr>trace = [],
      answers = (\<lambda>h ev. if bad ev then (answers_ok h ev)\<lparr>r_err := Some (OSError ''failed'')\<rparr>
                         else answers_ok h ev),
      fsize = Map.empty\<rparr>"

definition is_Open :: "event \<Rightarrow> bool" where
  "is_Open ev = (case ev of EvOpen p \<Rightarrow> True | _ \<Rightarrow> False)"

definition is_Stat :: "event \<Rightarrow> bool" where
  "is_Stat ev = (case ev of EvStat p \<Rightarrow> True | _ \<Rightarrow> False)"

definition is_Unmount :: "event \<Rightarrow> bool" where
  "is_Unmount ev = (case ev of EvUnmount p \<Rightarrow> True | _ \<Rightarrow> False)"

definition is_MkdirAll :: "event \<Rightarrow> bool" where
  "is_MkdirAll ev = (case ev of EvMkdirAll p m \<Rightarrow> True | _ \<Rightarrow> False)"

text \<open>The post-install step of \<^verbatim>\<open>FinalizeRoot\<close>, as the command that runs it.\<close>

definition is_configure_pending :: "event \<Rightarrow> bool" where
  "is_configure_pending ev =
     (case ev of
        EvRun dir p args \<Rightarrow> (case rev args of [] \<Rightarrow> False | a # as \<Rightarrow> a = ''eopkg configure-pending'')
      | _ \<Rightarrow> False)"

text \<open>A manager that was initialised for \<^verbatim>\<open>/target\<close>, with the service running or not.\<close>

definition mgr_target :: "bool \<Rightarrow> EopkgManager" where
  "mgr_target active =
     \<lparr>root = ''/target'', cacheTarget = ''/target/var/cache/eopkg/packages'',
      targetMode = True, dbusActive = active, cacheSource = EopkgCacheDirectory\<rparr>"

text \<open>The runs of a program with the given arguments among some events.\<close>

definition runs_with :: "string list \<Rightarrow> event list \<Rightarrow> event list" where
  "runs_with args evs =
     filter (\<lambda>ev. case ev of EvRun dir p a \<Rightarrow> a = args | _ \<Rightarrow> False) evs"

text \<open>The events that look a program up or run one.\<close>

definition is_process :: "event \<Rightarrow> bool" where
  "is_process ev = (case ev of EvLookPath f \<Rightarrow> True | EvRun dir p a \<Rightarrow> True | _ \<Rightarrow> False)"

section \<open>Properties\<close>

lemmas call_defs = sys_def sys_err_def sys_str_def os_Getwd_def os_Stat_def os_Open_def
  os_OpenFile_def ioutil_ReadAll_def file_Close_def os_Remove_def syscall_Ftruncate_def
  io_Copy_def os_Chtimes_def os_MkdirAll_def os_Symlink_def ioutil_ReadDir_def
  exec_LookPath_def cmd_Run_def BindMount_def Unmount_def CreateDeviceNode_def

lemmas example_defs = world_ok_def world_failing_def answers_ok_def ok_reply_def mgr_target_def
  is_Open_def is_Stat_def is_Unmount_def is_MkdirAll_def is_configure_pending_def

subsection \<open>The plain file copy\<close>

text \<open>
  Claim C6. For every source and destination, when \<^verbatim>\<open>os.Stat\<close> of the source fails,
  \<^verbatim>\<open>CopyFile\<close> returns \<^verbatim>\<open>nil\<close> and the world is the one before the call with the stat
  added to the trace: nothing was opened, created or written, and no file changed size.
\<close>

theorem CopyFile_stat_failure:
  assumes "r_err (answers w (trace w) (EvStat source)) = Some err"
  shows "CopyFile w source dest = (None, w\<lparr>trace := trace w @ [EvStat source]\<rparr>)"
  using assms by (simp add: CopyFile_def os_Stat_def sys_def)

theorem CopyFile_stat_failure_witness:
  "r_err (answers (world_failing is_Stat) (trace (world_failing is_Stat))
            (EvStat ''/target/usr/share/baselayout/passwd'')) = Some (OSError ''failed'')
   \<and> CopyFile (world_failing is_Stat) ''/target/usr/share/baselayout/passwd''
         ''/target/etc/passwd''
       = (None,
          (world_failing is_Stat)\<lparr>trace := [EvStat ''/target/usr/share/baselayout/passwd'']\<rparr>)"
proof -
  have h: "r_err (answers (world_failing is_Stat) (trace (world_failing is_Stat))
            (EvStat ''/target/usr/share/baselayout/passwd'')) = Some (OSError ''failed'')"
    by (simp add: example_defs)
  have t: "trace (world_failing is_Stat) = []"
    by (simp add: world_failing_def)
  show ?thesis
    using h CopyFile_stat_failure [OF h, of "''/target/etc/passwd''"] by (simp add: t)
qed

subsection \<open>The filesystem registry\<close>

text \<open>
  Claim C7. For every path and every filesystem name other than \<^verbatim>\<open>ext4\<close>, \<^verbatim>\<open>FormatAs\<close> and
  \<^verbatim>\<open>CheckFS\<close> both return an error whose message quotes the requested name, and leave the
  world as it was: no program was looked up or run.
\<close>

theorem unknown_filesystem_rejected:
  assumes "filesystem \<noteq> ''ext4''"
  shows "FormatAs w filename filesystem =
           (Some (Errorf (''Cannot format with unknown filesystem '' @ sq @ filesystem @ sq)), w)
       \<and> CheckFS w filename filesystem =
           (Some (Errorf (''Cannot check with unknown filesystem '' @ sq @ filesystem @ sq)), w)"
  using assms by (simp add: FormatAs_def CheckFS_def filesystemCommands_def checkCommands_def)

theorem unknown_filesystem_rejected_witness:
  "''unknown-fs'' \<noteq> ''ext4''
   \<and> FormatAs world_ok ''/tmp/rootfs.img'' ''unknown-fs'' =
        (Some (Errorf (''Cannot format with unknown filesystem '' @ sq @ ''unknown-fs'' @ sq)),
         world_ok)
   \<and> CheckFS world_ok ''/tmp/rootfs.img'' ''unknown-fs'' =
        (Some (Errorf (''Cannot check with unknown filesystem '' @ sq @ ''unknown-fs'' @ sq)),
         world_ok)"
proof -
  have h: "''unknown-fs'' \<noteq> ''ext4''"
    by simp
  show ?thesis
    using h unknown_filesystem_rejected [OF h, of world_ok "''/tmp/rootfs.img''"] by simp
qed

subsection \<open>Finalizing the root\<close>

text \<open>
  Claim C5. In every run of \<^verbatim>\<open>FinalizeRoot\<close> in which unmounting the cache fails,
  \<^verbatim>\<open>FinalizeRoot\<close> returns that error, the manager is unchanged and the unmount is the only
  call that was made: the base layout was not read or copied and no later step ran.
\<close>

theorem FinalizeRoot_unmount_failure:
  assumes "r_err (answers w (trace w) (EvUnmount (cacheTarget e))) = Some err"
  shows "FinalizeRoot w e =
           (Some err, w\<lparr>trace := trace w @ [EvUnmount (cacheTarget e)]\<rparr>, e)"
  using assms by (simp add: FinalizeRoot_def Unmount_def sys_err_def sys_def)

theorem FinalizeRoot_unmount_failure_witness:
  "r_err (answers (world_failing is_Unmount) (trace (world_failing is_Unmount))
            (EvUnmount (cacheTarget (mgr_target False)))) = Some (OSError ''failed'')
   \<and> FinalizeRoot (world_failing is_Unmount) (mgr_target False) =
       (Some (OSError ''failed''),
        (world_failing is_Unmount)\<lparr>trace := [EvUnmount ''/target/var/cache/eopkg/packages'']\<rparr>,
        mgr_target False)"
proof -
  have h: "r_err (answers (world_failing is_Unmount) (trace (world_failing is_Unmount))
            (EvUnmount (cacheTarget (mgr_target False)))) = Some (OSError ''failed'')"
    by (simp add: example_defs)
  have t: "trace (world_failing is_Unmount) = []"
    by (simp add: world_failing_def)
  have c: "cacheTarget (mgr_target False) = ''/target/var/cache/eopkg/packages''"
    by (simp add: mgr_target_def)
  show ?thesis
    using h FinalizeRoot_unmount_failure [OF h] by (simp add: t c)
qed

end
